theory Spec2Isabelle
  imports Complex_Main
begin

section \<open>Python values used by the data models and the renderer\<close>

text \<open>
  A Python \<open>str\<close> is a sequence of Unicode code points and \<open>len\<close> counts code points, so
  a string is modelled as the list of its code points. ASCII literals are written through
  \<open>ascii\<close>; the Cyrillic literals of the renderer are given by their code points.
\<close>

type_synonym pystr = "nat list"

definition ascii :: "string \<Rightarrow> pystr" where
  "ascii s = map of_char s"

text \<open>\<^verbatim>\<open>sep.join(parts)\<close>\<close>

fun join :: "pystr \<Rightarrow> pystr list \<Rightarrow> pystr" where
  "join sep [] = []"
| "join sep [x] = x"
| "join sep (x # y # ys) = x @ sep @ join sep (y # ys)"

text \<open>\<^verbatim>\<open>s.replace(old, new)\<close> for one-character \<open>old\<close> and \<open>new\<close>.\<close>

definition replace_char :: "nat \<Rightarrow> nat \<Rightarrow> pystr \<Rightarrow> pystr" where
  "replace_char old new s = map (\<lambda>c. if c = old then new else c) s"

text \<open>\<^verbatim>\<open>str(n)\<close> for a non-negative \<open>int\<close>: the decimal digits, most significant first.\<close>

fun str_nat :: "nat \<Rightarrow> pystr" where
  "str_nat n = (if n < 10 then [48 + n] else str_nat (n div 10) @ [48 + n mod 10])"

declare str_nat.simps [simp del]

text \<open>\<^verbatim>\<open>str(i)\<close> for an \<open>int\<close>.\<close>

definition str_int :: "int \<Rightarrow> pystr" where
  "str_int i = (if i < 0 then 45 # str_nat (nat (- i)) else str_nat (nat i))"

text \<open>
  A Python \<open>float\<close> is an IEEE double: a signed zero or dyadic number
  \<open>(-1)\<^sup>s \<sqdot> m \<sqdot> 2\<^sup>e\<close>, an infinity, or a NaN. \<open>Finite s m e\<close> carries the sign
  (\<open>True\<close> is negative), the integer significand and the binary exponent.
\<close>

datatype pyfloat = Finite bool nat int | Infinity bool | NaN

text \<open>The exceptions that the modelled code can raise.\<close>

datatype error_kind =
    value_error_missing
  | type_error_none_not_allowed
  | value_error_any_str_min_length
  | value_error_any_str_max_length

datatype py_error =
    ValidationError "(string \<times> error_kind) list"
  | IndexError
  | TypeError
  | ValueError
  | InvalidOperation

section \<open>Model construction (\<^verbatim>\<open>collectors/models.py\<close>)\<close>

text \<open>
  The models derive from pydantic's \<open>BaseModel\<close> (the 1.x API: \<open>validator\<close>, and
  \<open>Optional[...]\<close> fields that need no default). A model is built from keyword arguments;
  each one is absent, \<open>None\<close>, or a value of the annotated type. Construction visits the
  fields in declaration order (pydantic's \<open>validate_model\<close>):
  \<^item> an absent required field gives the error \<open>value_error.missing\<close>;
  \<^item> an absent field that is not required takes its default, and the field's validators
    run on it only when one of them is declared with \<open>always=True\<close>;
  \<^item> \<open>None\<close> for a field that is not \<open>Optional\<close> gives \<open>type_error.none.not_allowed\<close>;
    for an \<open>Optional\<close> field the class validators run on \<open>None\<close>;
  \<^item> the errors of all fields are collected and raised as one \<open>ValidationError\<close>.
\<close>

datatype 'a kwarg = Absent | PyNone | Given 'a

type_synonym 'a field_result = "(string \<times> error_kind) + 'a"

definition required_field :: "string \<Rightarrow> 'a kwarg \<Rightarrow> 'a field_result" where
  "required_field loc v =
     (case v of
        Absent \<Rightarrow> Inl (loc, value_error_missing)
      | PyNone \<Rightarrow> Inl (loc, type_error_none_not_allowed)
      | Given x \<Rightarrow> Inr x)"

definition field_errors :: "'a field_result \<Rightarrow> (string \<times> error_kind) list" where
  "field_errors r = (case r of Inl e \<Rightarrow> [e] | Inr _ \<Rightarrow> [])"

subsection \<open>LocationDTO\<close>

record LocationDTO =
  capital :: pystr
  alpha2code :: pystr

text \<open>
  \<^verbatim>\<open>alpha2code: str = Field(min_length=2, max_length=2)\<close>: pydantic's length validator
  compares \<open>len(v)\<close> with \<open>min_length\<close> first, then with \<open>max_length\<close>.
\<close>

definition constr_length :: "nat \<Rightarrow> nat \<Rightarrow> string \<Rightarrow> pystr \<Rightarrow> pystr field_result" where
  "constr_length min_length max_length loc v =
     (if length v < min_length then Inl (loc, value_error_any_str_min_length)
      else if length v > max_length then Inl (loc, value_error_any_str_max_length)
      else Inr v)"

definition alpha2code_field :: "pystr kwarg \<Rightarrow> pystr field_result" where
  "alpha2code_field v =
     (case required_field ''alpha2code'' v of
        Inl e \<Rightarrow> Inl e
      | Inr s \<Rightarrow> constr_length 2 2 ''alpha2code'' s)"

definition LocationDTO_init :: "pystr kwarg \<Rightarrow> pystr kwarg \<Rightarrow> py_error + LocationDTO" where
  "LocationDTO_init capital_arg alpha2code_arg =
     (case (required_field ''capital'' capital_arg, alpha2code_field alpha2code_arg) of
        (Inr c, Inr a) \<Rightarrow> Inr \<lparr>capital = c, alpha2code = a\<rparr>
      | (r1, r2) \<Rightarrow> Inl (ValidationError (field_errors r1 @ field_errors r2)))"

subsection \<open>NewsDTO\<close>

record datetime =
  year :: nat
  month :: nat
  day :: nat
  hour :: nat
  minute :: nat
  second :: nat

record NewsDTO =
  title :: pystr
  author :: "pystr option"
  description :: pystr
  source :: pystr
  url :: pystr
  published_at :: datetime

text \<open>\<^verbatim>\<open>NewsDTO.validate_author\<close>\<close>

definition validate_author :: "pystr option \<Rightarrow> pystr option" where
  "validate_author v = (if v = None \<or> v = Some [] then Some (ascii ''unknown'') else v)"

text \<open>
  \<^verbatim>\<open>author: Optional[str]\<close> with \<^verbatim>\<open>@validator("author")\<close>: the field is not required and
  its default is \<open>None\<close>; the validator is declared without \<open>always=True\<close>, so it runs on a
  supplied value (\<open>None\<close> included) and not on the default of an absent argument.
\<close>

definition author_field :: "pystr kwarg \<Rightarrow> pystr option field_result" where
  "author_field v =
     (case v of
        Absent \<Rightarrow> Inr None
      | PyNone \<Rightarrow> Inr (validate_author None)
      | Given s \<Rightarrow> Inr (validate_author (Some s)))"

definition NewsDTO_init ::
  "pystr kwarg \<Rightarrow> pystr kwarg \<Rightarrow> pystr kwarg \<Rightarrow> pystr kwarg \<Rightarrow> pystr kwarg \<Rightarrow> datetime kwarg
     \<Rightarrow> py_error + NewsDTO" where
  "NewsDTO_init title_arg author_arg description_arg source_arg url_arg published_at_arg =
     (case (required_field ''title'' title_arg, author_field author_arg,
            required_field ''description'' description_arg,
            required_field ''source'' source_arg, required_field ''url'' url_arg,
            required_field ''published_at'' published_at_arg) of
        (Inr t, Inr a, Inr d, Inr s, Inr u, Inr p) \<Rightarrow>
          Inr \<lparr>title = t, author = a, description = d, source = s, url = u, published_at = p\<rparr>
      | (r1, r2, r3, r4, r5, r6) \<Rightarrow>
          Inl (ValidationError (field_errors r1 @ field_errors r2 @ field_errors r3 @
                                field_errors r4 @ field_errors r5 @ field_errors r6)))"

subsection \<open>The other models\<close>

record CurrencyInfoDTO =
  code :: pystr

record LanguagesInfoDTO =
  language_name :: pystr
  native_name :: pystr

text \<open>
  \<open>currencies\<close> and \<open>languages\<close> are Python sets; the lists give their elements in the
  order in which the set is iterated. The fields \<open>capital\<close>, \<open>alpha2code\<close> and \<open>name\<close> of
  the source carry a prefix here, since \<open>LocationDTO\<close> and \<open>LanguagesInfoDTO\<close> use the
  same names.
\<close>

record CountryDTO =
  country_capital :: pystr
  country_alpha2code :: pystr
  alt_spellings :: "pystr list"
  currencies :: "CurrencyInfoDTO list"
  flag :: pystr
  languages :: "LanguagesInfoDTO list"
  name :: pystr
  population :: int
  subregion :: pystr
  capital_latitude :: pyfloat
  capital_longitude :: pyfloat
  capital_area :: "pyfloat option"
  timezones :: "pystr list"

record WeatherInfoDTO =
  temp :: pyfloat
  pressure :: int
  humidity :: int
  wind_speed :: pyfloat
  weather_description :: pystr
  visibility :: pyfloat
  timezone :: int
  date_time :: datetime

text \<open>
  \<open>currency_rates\<close> is a \<open>dict\<close>: an association list in the dict's (insertion) order.
\<close>

record LocationInfoDTO =
  location :: CountryDTO
  weather :: WeatherInfoDTO
  currency_rates :: "(pystr \<times> pyfloat) list"
  news :: "NewsDTO list option"

text \<open>\<^verbatim>\<open>news: Optional[list[NewsDTO]]\<close>: not required, default \<open>None\<close>, no validator.\<close>

definition news_field :: "NewsDTO list kwarg \<Rightarrow> NewsDTO list option field_result" where
  "news_field v =
     (case v of
        Absent \<Rightarrow> Inr None
      | PyNone \<Rightarrow> Inr None
      | Given ns \<Rightarrow> Inr (Some ns))"

definition LocationInfoDTO_init ::
  "CountryDTO kwarg \<Rightarrow> WeatherInfoDTO kwarg \<Rightarrow> (pystr \<times> pyfloat) list kwarg
     \<Rightarrow> NewsDTO list kwarg \<Rightarrow> py_error + LocationInfoDTO" where
  "LocationInfoDTO_init location_arg weather_arg currency_rates_arg news_arg =
     (case (required_field ''location'' location_arg, required_field ''weather'' weather_arg,
            required_field ''currency_rates'' currency_rates_arg, news_field news_arg) of
        (Inr l, Inr w, Inr c, Inr n) \<Rightarrow>
          Inr \<lparr>location = l, weather = w, currency_rates = c, news = n\<rparr>
      | (r1, r2, r3, r4) \<Rightarrow>
          Inl (ValidationError (field_errors r1 @ field_errors r2 @ field_errors r3 @
                                field_errors r4)))"

section \<open>Equality, hashing and assignment of LocationDTO objects\<close>

text \<open>
  Python objects have identity: two \<open>LocationDTO\<close> objects with equal fields are two
  objects. The store maps an object's address to its \<open>__dict__\<close>.
\<close>

type_synonym addr = nat

type_synonym store = "addr \<Rightarrow> LocationDTO"

text \<open>
  The store in which every address holds an object with the fields of \<open>d\<close>, and the
  reading of the field \<open>capital\<close> of the object at an address.
\<close>

definition new_store :: "LocationDTO \<Rightarrow> store" where
  "new_store d = (\<lambda>a. d)"

definition capital_at :: "addr \<Rightarrow> store \<Rightarrow> pystr" where
  "capital_at a st = capital (st a)"

datatype pyval = VType string | VStr pystr | VTuple "pyval list"

text \<open>\<^verbatim>\<open>self.__dict__\<close> of a \<open>LocationDTO\<close>, in field order.\<close>

definition LocationDTO_dict :: "LocationDTO \<Rightarrow> (string \<times> pyval) list" where
  "LocationDTO_dict d = [(''capital'', VStr (capital d)), (''alpha2code'', VStr (alpha2code d))]"

text \<open>Equality of two \<open>dict\<close>s: the same keys, with equal values.\<close>

definition dict_eq :: "(string \<times> pyval) list \<Rightarrow> (string \<times> pyval) list \<Rightarrow> bool" where
  "dict_eq xs ys =
     (set (map fst xs) = set (map fst ys) \<and> list_all (\<lambda>k. map_of xs k = map_of ys k) (map fst xs))"

text \<open>
  \<^verbatim>\<open>BaseModel.__eq__\<close> compares the two objects' \<open>dict()\<close>;
  \<^verbatim>\<open>HashableBaseModel.__hash__\<close> hashes the tuple of the type and the field values.
  Python's built-in \<open>hash\<close> on tuples is the parameter \<open>h\<close>.
\<close>

definition LocationDTO_eq :: "store \<Rightarrow> addr \<Rightarrow> addr \<Rightarrow> bool" where
  "LocationDTO_eq st a b = dict_eq (LocationDTO_dict (st a)) (LocationDTO_dict (st b))"

definition LocationDTO_hash :: "(pyval \<Rightarrow> int) \<Rightarrow> store \<Rightarrow> addr \<Rightarrow> int" where
  "LocationDTO_hash h st a =
     h (VTuple (VType ''LocationDTO'' # map snd (LocationDTO_dict (st a))))"

text \<open>
  A Python set or dict finds an element by its hash and then by identity or equality.
  A set is the list of the addresses of its elements, a dict the list of its items.
\<close>

definition same_key :: "(pyval \<Rightarrow> int) \<Rightarrow> store \<Rightarrow> addr \<Rightarrow> addr \<Rightarrow> bool" where
  "same_key h st a b =
     (LocationDTO_hash h st a = LocationDTO_hash h st b \<and> (a = b \<or> LocationDTO_eq st a b))"

definition set_contains :: "(pyval \<Rightarrow> int) \<Rightarrow> store \<Rightarrow> addr list \<Rightarrow> addr \<Rightarrow> bool" where
  "set_contains h st s a = list_ex (\<lambda>b. same_key h st b a) s"

definition set_add :: "(pyval \<Rightarrow> int) \<Rightarrow> store \<Rightarrow> addr list \<Rightarrow> addr \<Rightarrow> addr list" where
  "set_add h st s a = (if set_contains h st s a then s else s @ [a])"

definition frozenset :: "(pyval \<Rightarrow> int) \<Rightarrow> store \<Rightarrow> addr list \<Rightarrow> addr list" where
  "frozenset h st xs = foldl (set_add h st) [] xs"

fun dict_get :: "(pyval \<Rightarrow> int) \<Rightarrow> store \<Rightarrow> (addr \<times> 'v) list \<Rightarrow> addr \<Rightarrow> 'v option" where
  "dict_get h st [] a = None"
| "dict_get h st ((k, v) # kvs) a = (if same_key h st k a then Some v else dict_get h st kvs a)"

fun dict_set :: "(pyval \<Rightarrow> int) \<Rightarrow> store \<Rightarrow> (addr \<times> 'v) list \<Rightarrow> addr \<Rightarrow> 'v \<Rightarrow> (addr \<times> 'v) list" where
  "dict_set h st [] a v = [(a, v)]"
| "dict_set h st ((k, w) # kvs) a v =
     (if same_key h st k a then (k, v) # kvs else (k, w) # dict_set h st kvs a v)"

text \<open>
  \<^verbatim>\<open>obj.name = value\<close> (\<^verbatim>\<open>BaseModel.__setattr__\<close>). No model of the file sets a \<open>Config\<close>,
  so assignment is allowed and not validated: a name that is not a field raises
  \<open>ValueError\<close>, a field is overwritten in the object's \<open>__dict__\<close>.
\<close>

definition LocationDTO_setattr :: "store \<Rightarrow> addr \<Rightarrow> string \<Rightarrow> pystr \<Rightarrow> py_error + store" where
  "LocationDTO_setattr st a field_name v =
     (if field_name = ''capital'' then Inr (st(a := (st a)\<lparr>capital := v\<rparr>))
      else if field_name = ''alpha2code'' then Inr (st(a := (st a)\<lparr>alpha2code := v\<rparr>))
      else Inl ValueError)"

section \<open>Decimal arithmetic used by the renderer\<close>

text \<open>
  A \<open>decimal.Decimal\<close> is a sign, a coefficient and an exponent, an infinity or a NaN.
  \<open>Dec s c x\<close> is the number \<open>(-1)\<^sup>s \<sqdot> c \<sqdot> 10\<^sup>x\<close>.
\<close>

datatype decimal = Dec bool nat int | DInf bool | DNaN

text \<open>\<^verbatim>\<open>n.bit_length()\<close>\<close>

fun bit_length :: "nat \<Rightarrow> nat" where
  "bit_length n = (if n = 0 then 0 else Suc (bit_length (n div 2)))"

declare bit_length.simps [simp del]

text \<open>\<^verbatim>\<open>abs(f).as_integer_ratio()\<close>: the fraction in lowest terms.\<close>

definition as_integer_ratio :: "nat \<Rightarrow> int \<Rightarrow> nat \<times> nat" where
  "as_integer_ratio m e =
     (if 0 \<le> e then (m * 2 ^ nat e, 1)
      else (let d = 2 ^ nat (- e); g = gcd m d in (m div g, d div g)))"

text \<open>
  \<^verbatim>\<open>Decimal(f)\<close> for a float \<open>f\<close> converts exactly: with \<open>n / d\<close> the fraction of \<open>abs(f)\<close>
  and \<open>k = d.bit_length() - 1\<close>, the result has the coefficient \<open>n * 5 ** k\<close> and the
  exponent \<open>-k\<close>.
\<close>

definition Decimal_from_float :: "pyfloat \<Rightarrow> decimal" where
  "Decimal_from_float f =
     (case f of
        Finite s m e \<Rightarrow>
          (case as_integer_ratio m e of
             (n, d) \<Rightarrow> (let k = bit_length d - 1 in Dec s (n * 5 ^ k) (- int k)))
      | Infinity s \<Rightarrow> DInf s
      | NaN \<Rightarrow> DNaN)"

text \<open>The default context: 28 digits of precision, exponents up to 999999.\<close>

definition context_prec :: nat where
  "context_prec = 28"

definition context_Emax :: int where
  "context_Emax = 999999"

definition num_digits :: "nat \<Rightarrow> nat" where
  "num_digits c = length (str_nat c)"

definition adjusted :: "nat \<Rightarrow> int \<Rightarrow> int" where
  "adjusted c x = x + int (num_digits c) - 1"

text \<open>
  Rescaling a finite non-zero number to the exponent \<open>target\<close> with \<open>ROUND_HALF_UP\<close>:
  a larger exponent pads the coefficient with zeros; otherwise the digits below \<open>target\<close> are
  dropped and the coefficient is incremented when the first dropped digit is 5 or more.
\<close>

definition rescale_half_up :: "nat \<Rightarrow> int \<Rightarrow> int \<Rightarrow> nat" where
  "rescale_half_up c x target =
     (if target \<le> x then c * 10 ^ nat (x - target)
      else (let k = nat (target - x);
                coeff = c div 10 ^ k;
                first_dropped = (c div 10 ^ (k - 1)) mod 10
            in if 5 \<le> first_dropped then coeff + 1 else coeff))"

text \<open>
  \<^verbatim>\<open>d.quantize(exp=Decimal('.01'), rounding=ROUND_HALF_UP)\<close> in the default context, with
  \<open>target\<close> the exponent of the second argument. A NaN is returned as it is; an infinity, or a
  result that needs more digits than the precision, signals \<open>InvalidOperation\<close>, which
  the default context raises.
\<close>

definition quantize :: "decimal \<Rightarrow> int \<Rightarrow> py_error + decimal" where
  "quantize d target =
     (case d of
        DNaN \<Rightarrow> Inr DNaN
      | DInf s \<Rightarrow> Inl InvalidOperation
      | Dec s c x \<Rightarrow>
          if c = 0 then Inr (Dec s 0 target)
          else if adjusted c x > context_Emax then Inl InvalidOperation
          else if adjusted c x - target + 1 > int context_prec then Inl InvalidOperation
          else (let coeff = rescale_half_up c x target in
                if adjusted coeff target > context_Emax then Inl InvalidOperation
                else if num_digits coeff > context_prec then Inl InvalidOperation
                else Inr (Dec s coeff target)))"

text \<open>
  \<^verbatim>\<open>str(d)\<close>: plain notation when the exponent is at most 0 and more than \<open>-6\<close> digits lie
  left of the point, scientific notation otherwise.
\<close>

definition Decimal_str :: "decimal \<Rightarrow> pystr" where
  "Decimal_str d =
     (case d of
        DNaN \<Rightarrow> ascii ''NaN''
      | DInf s \<Rightarrow> (if s then ascii ''-'' else []) @ ascii ''Infinity''
      | Dec s c x \<Rightarrow>
          (let sign = (if s then ascii ''-'' else []);
               digits = str_nat c;
               leftdigits = x + int (length digits);
               dotplace = (if x \<le> 0 \<and> leftdigits > - 6 then leftdigits else 1);
               intpart = (if dotplace \<le> 0 then ascii ''0''
                          else if dotplace \<ge> int (length digits)
                          then digits @ replicate (nat (dotplace - int (length digits))) 48
                          else take (nat dotplace) digits);
               fracpart = (if dotplace \<le> 0 then ascii ''.'' @ replicate (nat (- dotplace)) 48 @ digits
                           else if dotplace \<ge> int (length digits) then []
                           else ascii ''.'' @ drop (nat dotplace) digits);
               exp_str = (if leftdigits = dotplace then []
                      else ascii ''E'' @ (if leftdigits - dotplace < 0 then ascii ''-'' else ascii ''+'')
                           @ str_nat (nat \<bar>leftdigits - dotplace\<bar>))
           in sign @ intpart @ fracpart @ exp_str))"

section \<open>The renderer (\<^verbatim>\<open>renderer.py\<close>)\<close>

text \<open>\<^verbatim>\<open>"{:,}".format(n)\<close>: the digits of \<open>n\<close> with a comma before every group of three
  digits counted from the right, after the sign.\<close>

fun group_reversed :: "pystr \<Rightarrow> pystr" where
  "group_reversed (a # b # c # d # ds) = a # b # c # 44 # group_reversed (d # ds)"
| "group_reversed ds = ds"

definition insert_thousands :: "pystr \<Rightarrow> pystr" where
  "insert_thousands digits = rev (group_reversed (rev digits))"

definition format_comma :: "int \<Rightarrow> pystr" where
  "format_comma i =
     (if i < 0 then 45 # insert_thousands (str_nat (nat (- i)))
      else insert_thousands (str_nat (nat i)))"

text \<open>\<^verbatim>\<open>Renderer._format_population\<close>\<close>

definition format_population :: "LocationInfoDTO \<Rightarrow> pystr" where
  "format_population location_info =
     replace_char 44 46 (format_comma (population (location location_info)))"

text \<open>\<^verbatim>\<open>Renderer._format_languages\<close>\<close>

definition format_languages :: "LocationInfoDTO \<Rightarrow> pystr" where
  "format_languages location_info =
     join (ascii '', '')
       (map (\<lambda>item. language_name item @ ascii '' ('' @ native_name item @ ascii '')'')
            (languages (location location_info)))"

text \<open>\<^verbatim>\<open>Renderer._format_currency_rates\<close>: one string per item of the dict, in its order;
  the first rate that cannot be quantized raises.\<close>

definition format_rate :: "pystr \<Rightarrow> pyfloat \<Rightarrow> py_error + pystr" where
  "format_rate currency rates =
     (case quantize (Decimal_from_float rates) (- 2) of
        Inl e \<Rightarrow> Inl e
      | Inr q \<Rightarrow> Inr (currency @ ascii '' = '' @ Decimal_str q @ [32, 1088, 1091, 1073, 46]))"

fun format_rate_items :: "(pystr \<times> pyfloat) list \<Rightarrow> py_error + pystr list" where
  "format_rate_items [] = Inr []"
| "format_rate_items ((currency, rates) # rest) =
     (case format_rate currency rates of
        Inl e \<Rightarrow> Inl e
      | Inr s \<Rightarrow> (case format_rate_items rest of Inl e \<Rightarrow> Inl e | Inr ss \<Rightarrow> Inr (s # ss)))"

definition format_currency_rates :: "LocationInfoDTO \<Rightarrow> py_error + pystr" where
  "format_currency_rates location_info =
     (case format_rate_items (currency_rates location_info) of
        Inl e \<Rightarrow> Inl e
      | Inr ss \<Rightarrow> Inr (join (ascii '', '') ss))"

text \<open>\<^verbatim>\<open>dt.strftime("%d.%m.%Y %H:%M")\<close>: two digits for day, month, hour and minute, and
  the year as the C library prints it, without padding.\<close>

definition pad2 :: "nat \<Rightarrow> pystr" where
  "pad2 n = (if n < 10 then 48 # str_nat n else str_nat n)"

definition strftime :: "datetime \<Rightarrow> pystr" where
  "strftime dt =
     pad2 (day dt) @ ascii ''.'' @ pad2 (month dt) @ ascii ''.'' @ str_nat (year dt) @ ascii '' ''
       @ pad2 (hour dt) @ ascii '':'' @ pad2 (minute dt)"

text \<open>
  A \<open>PrettyTable\<close>: the field names, the rows added so far and the options the renderer
  sets. A cell holds the object that was put into the row: a string or a float.
\<close>

datatype cell = CStr pystr | CFloat pyfloat

record PrettyTable =
  field_names :: "pystr list"
  rows :: "cell list list"
  border :: bool
  preserve_internal_border :: bool
  padding_width :: nat
  max_width :: "(pystr \<times> nat) list"

definition PrettyTable_new :: PrettyTable where
  "PrettyTable_new =
     \<lparr>field_names = [], rows = [], border = True, preserve_internal_border = False,
      padding_width = 1, max_width = []\<rparr>"

text \<open>\<^verbatim>\<open>PrettyTable.add_row\<close>: a row of another length than the field names is refused;
  the row is appended.\<close>

definition add_row :: "PrettyTable \<Rightarrow> cell list \<Rightarrow> py_error + PrettyTable" where
  "add_row t row =
     (if field_names t \<noteq> [] \<and> length row \<noteq> length (field_names t) then Inl ValueError
      else Inr (t\<lparr>field_names :=
                     (if field_names t = []
                      then map (\<lambda>n. ascii ''Field '' @ str_nat (n + 1)) [0..<length row]
                      else field_names t),
                  rows := rows t @ [row]\<rparr>))"

definition info_field_names :: "pystr list" where
  "info_field_names =
     [[1057, 1090, 1088, 1072, 1085, 1072],
      [1057, 1090, 1086, 1083, 1080, 1094, 1072],
      [1064, 1080, 1088, 1086, 1090, 1072],
      [1044, 1086, 1083, 1075, 1086, 1090, 1072],
      [1056, 1077, 1075, 1080, 1086, 1085],
      [1053, 1072, 1089, 1077, 1083, 1077, 1085, 1080, 1077, 32, 1089, 1090, 1088, 1072, 1085, 1099],
      [1071, 1079, 1099, 1082, 1080],
      [1055, 1083, 1086, 1097, 1072, 1076, 1100],
      [1063, 1072, 1089, 1086, 1074, 1086, 1081, 32, 1087, 1086, 1103, 1089],
      [1050, 1091, 1088, 1089, 1099, 32, 1074, 1072, 1083, 1102, 1090]]"

definition weather_field_names :: "pystr list" where
  "weather_field_names =
     [[1058, 1077, 1084, 1087, 1077, 1088, 1072, 1090, 1091, 1088, 1072],
      [1054, 1087, 1080, 1089, 1072, 1085, 1080, 1077],
      [1042, 1080, 1076, 1080, 1084, 1086, 1089, 1090, 1100],
      [1057, 1082, 1086, 1088, 1086, 1089, 1090, 1100, 32, 1074, 1077, 1090, 1088, 1072],
      [1042, 1088, 1077, 1084, 1103, 32, 1087, 1086, 1083, 1091, 1095, 1077, 1085, 1080, 1103,
       32, 1076, 1072, 1085, 1085, 1099, 1093]]"

definition news_field_names :: "pystr list" where
  "news_field_names =
     [[1048, 1089, 1090, 1086, 1095, 1085, 1080, 1082],
      [1053, 1072, 1079, 1074, 1072, 1085, 1080, 1077],
      [1040, 1074, 1090, 1086, 1088],
      [1057, 1089, 1099, 1083, 1082, 1072],
      [1054, 1087, 1080, 1089, 1072, 1085, 1080, 1077],
      [1044, 1072, 1090, 1072, 32, 1087, 1091, 1073, 1083, 1080, 1082, 1072, 1094, 1080, 1080]]"

text \<open>
  The row of the first table. The elements of the list are evaluated in order, so an empty
  \<open>timezones\<close> raises \<open>IndexError\<close> before the currency rates are formatted. \<open>float_str\<close>
  is Python's conversion of a float to a string in an f-string; \<open>str(None)\<close> is \<open>None\<close>.
\<close>

definition info_row :: "(pyfloat \<Rightarrow> pystr) \<Rightarrow> LocationInfoDTO \<Rightarrow> py_error + cell list" where
  "info_row float_str location_info =
     (let loc = location location_info;
          population_cell = format_population location_info @ [32, 1095, 1077, 1083, 46];
          languages_cell = format_languages location_info;
          area_cell = (case capital_area loc of None \<Rightarrow> ascii ''None'' | Some a \<Rightarrow> float_str a)
                        @ [32, 1082, 1074, 46, 32, 1082, 1084, 46]
      in case timezones loc of
           [] \<Rightarrow> Inl IndexError
         | tz # _ \<Rightarrow>
             (case format_currency_rates location_info of
                Inl e \<Rightarrow> Inl e
              | Inr rates_cell \<Rightarrow>
                  Inr [CStr (name loc), CStr (country_capital loc), CFloat (capital_latitude loc),
                       CFloat (capital_longitude loc), CStr (subregion loc), CStr population_cell,
                       CStr languages_cell, CStr area_cell, CStr tz, CStr rates_cell]))"

definition weather_row :: "(pyfloat \<Rightarrow> pystr) \<Rightarrow> LocationInfoDTO \<Rightarrow> cell list" where
  "weather_row float_str location_info =
     (let w = weather location_info
      in [CStr (float_str (temp w) @ [32, 176, 67]),
          CStr (weather_description w),
          CStr (float_str (visibility w) @ [32, 1084, 46]),
          CStr (float_str (wind_speed w) @ [32, 1084, 47, 1089, 46]),
          CStr (strftime (date_time w))])"

definition news_row :: "NewsDTO \<Rightarrow> cell list" where
  "news_row article =
     [CStr (source article), CStr (title article),
      CStr (case author article of None \<Rightarrow> ascii ''None'' | Some a \<Rightarrow> a),
      CStr (url article), CStr (description article), CStr (strftime (published_at article))]"

text \<open>The loop \<^verbatim>\<open>for article in self.location_info.news\<close>; iterating \<open>None\<close> raises
  \<open>TypeError\<close>.\<close>

fun add_news_rows :: "PrettyTable \<Rightarrow> NewsDTO list \<Rightarrow> py_error + PrettyTable" where
  "add_news_rows t [] = Inr t"
| "add_news_rows t (article # rest) =
     (case add_row t (news_row article) of
        Inl e \<Rightarrow> Inl e
      | Inr t' \<Rightarrow> add_news_rows t' rest)"

definition news_loop :: "PrettyTable \<Rightarrow> NewsDTO list option \<Rightarrow> py_error + PrettyTable" where
  "news_loop t articles =
     (case articles of None \<Rightarrow> Inl TypeError | Some as \<Rightarrow> add_news_rows t as)"

text \<open>The third table as \<open>render\<close> sets it up before the loop over the articles.\<close>

definition news_table_start :: PrettyTable where
  "news_table_start =
     PrettyTable_new\<lparr>border := True, preserve_internal_border := True,
       padding_width := 5, field_names := news_field_names,
       max_width := [(news_field_names ! 1, 25), (news_field_names ! 3, 25),
                     (news_field_names ! 4, 45)]\<rparr>"

text \<open>\<^verbatim>\<open>Renderer.render\<close>\<close>

definition render ::
  "(pyfloat \<Rightarrow> pystr) \<Rightarrow> LocationInfoDTO
     \<Rightarrow> py_error + (PrettyTable \<times> pystr \<times> PrettyTable \<times> pystr \<times> PrettyTable)" where
  "render float_str location_info =
     (case info_row float_str location_info of
        Inl e \<Rightarrow> Inl e
      | Inr row \<Rightarrow>
     (case add_row (PrettyTable_new\<lparr>field_names := info_field_names\<rparr>) row of
        Inl e \<Rightarrow> Inl e
      | Inr info_table \<Rightarrow>
     (case add_row (PrettyTable_new\<lparr>field_names := weather_field_names\<rparr>)
             (weather_row float_str location_info) of
        Inl e \<Rightarrow> Inl e
      | Inr weather_table \<Rightarrow>
     (case news_loop news_table_start (news location_info) of
        Inl e \<Rightarrow> Inl e
      | Inr news_table \<Rightarrow>
          Inr (info_table, [1055, 1086, 1075, 1086, 1076, 1072, 58], weather_table,
               [1053, 1086, 1074, 1086, 1089, 1090, 1080], news_table)))))"

section \<open>The weather collector\<close>



section \<open>Definitions used to state the properties\<close>

subsection \<open>Grouping in threes\<close>

text \<open>
  The decimal representation of a number grouped in threes with \<open>.\<close> as the grouping
  mark, defined on the number: the last three digits are split off as long as the number
  has more than three.
\<close>

definition pad3 :: "nat \<Rightarrow> pystr" where
  "pad3 n = [48 + n div 100, 48 + (n div 10) mod 10, 48 + n mod 10]"

fun group_thousands :: "nat \<Rightarrow> pystr" where
  "group_thousands n =
     (if n < 1000 then str_nat n else group_thousands (n div 1000) @ 46 # pad3 (n mod 1000))"

declare group_thousands.simps [simp del]

subsection \<open>Rounding half-up to two decimals\<close>

text \<open>
  The magnitude of the float \<open>Finite s m e\<close> and of the decimal \<open>Dec s c x\<close> as rational
  numbers; a non-negative rational in hundredths, rounded half-up; and the text of a
  number of hundredths with its sign: the integer part, a point and two digits.
  \<open>ROUND_HALF_UP\<close> rounds the magnitude, so a tie goes away from zero.
\<close>

definition float_abs :: "nat \<Rightarrow> int \<Rightarrow> rat" where
  "float_abs m e = (if 0 \<le> e then of_nat m * 2 ^ nat e else of_nat m / 2 ^ nat (- e))"

definition dec_abs :: "nat \<Rightarrow> int \<Rightarrow> rat" where
  "dec_abs c x = (if 0 \<le> x then of_nat c * 10 ^ nat x else of_nat c / 10 ^ nat (- x))"

definition half_up_hundredths :: "rat \<Rightarrow> nat" where
  "half_up_hundredths x = nat \<lfloor>x * 100 + 1 / 2\<rfloor>"

definition two_decimals :: "bool \<Rightarrow> nat \<Rightarrow> pystr" where
  "two_decimals s n = (if s then [45] else []) @ str_nat (n div 100) @ 46 # pad2 (n mod 100)"

text \<open>The rate rounded half-up to two decimals, as text; it is defined for numbers.\<close>

fun rounded_rate :: "pyfloat \<Rightarrow> pystr" where
  "rounded_rate (Finite s m e) = two_decimals s (half_up_hundredths (float_abs m e))"

text \<open>
  The rates whose rounded value fits the 28 digits of the decimal context: the numbers of
  magnitude below \<open>10\<^sup>2\<^sup>6\<close> (less half a hundredth).
\<close>

fun rate_in_range :: "pyfloat \<Rightarrow> bool" where
  "rate_in_range (Finite s m e) = (half_up_hundredths (float_abs m e) < 10 ^ 28)"
| "rate_in_range (Infinity s) = False"
| "rate_in_range NaN = False"

text \<open>The text of one item: the code, \<open>=\<close>, the rounded rate and the unit.\<close>

definition rate_text :: "pystr \<times> pyfloat \<Rightarrow> pystr" where
  "rate_text item = fst item @ ascii '' = '' @ rounded_rate (snd item) @ [32, 1088, 1091, 1073, 46]"

subsection \<open>Reading the rendered tables\<close>

definition info_table ::
  "PrettyTable \<times> pystr \<times> PrettyTable \<times> pystr \<times> PrettyTable \<Rightarrow> PrettyTable" where
  "info_table tables = fst tables"

definition news_table ::
  "PrettyTable \<times> pystr \<times> PrettyTable \<times> pystr \<times> PrettyTable \<Rightarrow> PrettyTable" where
  "news_table tables = snd (snd (snd (snd tables)))"

text \<open>The cells of a table under one field name, row by row.\<close>

definition column :: "PrettyTable \<Rightarrow> pystr \<Rightarrow> cell option list" where
  "column t field_name = map (\<lambda>row. map_of (zip (field_names t) row) field_name) (rows t)"

text \<open>The field name of the time zone column.\<close>

definition timezone_field :: pystr where
  "timezone_field = [1063, 1072, 1089, 1086, 1074, 1086, 1081, 32, 1087, 1086, 1103, 1089]"

section \<open>Example data\<close>

text \<open>
  The aggregate of the docstring of \<open>LocationInfoDTO\<close>, with the floats given exactly
  (\<open>0.016503\<close> is \<open>4756665897631699 \<sqdot> 2\<^sup>-\<^sup>5\<^sup>8\<close>) and an empty list of news.
\<close>

definition example_info :: LocationInfoDTO where
  "example_info =
     \<lparr>location = \<lparr>country_capital = ascii ''Mariehamn'', country_alpha2code = ascii ''AX'',
                   alt_spellings = [ascii ''AX'', ascii ''Aaland'', ascii ''Aland'', ascii ''Ahvenanmaa''],
                   currencies = [\<lparr>code = ascii ''EUR''\<rparr>],
                   flag = ascii ''http://assets.promptapi.com/flags/AX.svg'',
                   languages = [\<lparr>language_name = ascii ''Swedish'', native_name = ascii ''svenska''\<rparr>],
                   name = 197 # ascii ''land Islands'', population = 28875,
                   subregion = ascii ''Northern Europe'',
                   capital_latitude = Finite False 5611147365731585 (- 48),
                   capital_longitude = Finite False 8457943058936653 (- 47),
                   capital_area = Some (Finite False 1580 0),
                   timezones = [ascii ''UTC+02:00'']\<rparr>,
      weather = \<lparr>temp = Finite False 7836263351624663 (- 49), pressure = 1023, humidity = 54,
                  wind_speed = Finite False 5212916568681349 (- 50),
                  weather_description = ascii ''scattered clouds'',
                  visibility = Finite False 10000 0, timezone = 3600,
                  date_time = \<lparr>year = 2023, month = 3, day = 30, hour = 12, minute = 23, second = 34\<rparr>\<rparr>,
      currency_rates = [(ascii ''EUR'', Finite False 4756665897631699 (- 58))],
      news = Some []\<rparr>"

definition example_news :: "NewsDTO list" where
  "example_news =
     [\<lparr>title = ascii ''Maia Sandu'', author = Some (ascii ''Ion Gaidau''),
       description = ascii ''Presedinta Maia Sandu a avertizat'', source = ascii ''Adevarul.ro'',
       url = ascii ''https://adevarul.ro/stiri-externe/2254533.html'',
       published_at = \<lparr>year = 2023, month = 3, day = 30, hour = 12, minute = 42, second = 34\<rparr>\<rparr>,
      \<lparr>title = ascii ''Second'', author = Some (ascii ''unknown''),
       description = ascii ''text'', source = ascii ''Source'',
       url = ascii ''https://example.org/2'',
       published_at = \<lparr>year = 2023, month = 3, day = 29, hour = 8, minute = 5, second = 0\<rparr>\<rparr>]"

text \<open>
  A conversion of floats to text for the examples: it writes the float exactly, as
  significand and exponent. The theorems about \<open>render\<close> hold for every conversion.
\<close>

definition float_str_example :: "pyfloat \<Rightarrow> pystr" where
  "float_str_example f =
     (case f of
        Finite s m e \<Rightarrow> (if s then ascii ''-'' else []) @ str_nat m @ ascii ''*2**'' @ str_int e
      | Infinity s \<Rightarrow> (if s then ascii ''-inf'' else ascii ''inf'')
      | NaN \<Rightarrow> ascii ''nan'')"

text \<open>Two objects with equal fields, at the addresses 0 and 1, and a hash function.\<close>

definition two_objects :: store where
  "two_objects = new_store \<lparr>capital = ascii ''Moscow'', alpha2code = ascii ''RU''\<rparr>"

fun example_hash :: "pyval \<Rightarrow> int" where
  "example_hash (VType n) = int (length n)"
| "example_hash (VStr s) = int (sum_list s)"
| "example_hash (VTuple vs) = sum_list (map example_hash vs)"


section \<open>Construction of the models\<close>

subsection \<open>The author of a news article\<close>

lemma author_field_supplied:
  "a \<noteq> Absent \<Longrightarrow> \<exists>v. author_field a = Inr (Some v) \<and> v \<noteq> []"
  by (cases a) (simp_all add: author_field_def validate_author_def ascii_def)

lemma NewsDTO_init_author:
  "NewsDTO_init t a d s u p = Inr n \<Longrightarrow> author_field a = Inr (author n)"
  by (auto simp: NewsDTO_init_def split: sum.splits)

lemma NewsDTO_supplied_author_normalized:
  assumes "a \<noteq> Absent" and "NewsDTO_init t a d s u p = Inr n"
  shows "author n \<noteq> None \<and> author n \<noteq> Some []"
  using author_field_supplied [OF assms(1)] NewsDTO_init_author [OF assms(2)] by auto

text \<open>
  Claim C1: the author of every constructed \<open>NewsDTO\<close> is neither \<open>None\<close> nor the empty
  string, when the argument is \<open>None\<close>, when it is empty and when it is absent.
  \<open>validate_author\<close> does map a supplied \<open>None\<close> or empty string to \<open>unknown\<close>
  (\<open>NewsDTO_supplied_author_normalized\<close>). It is declared without \<open>always=True\<close>, so it
  does not run on the default of an absent argument: a \<open>NewsDTO\<close> built without \<open>author\<close>
  is accepted and its author is \<open>None\<close>.
\<close>

theorem NewsDTO_absent_author_stays_None:
  "map_sum id author
     (NewsDTO_init (Given (ascii ''title'')) Absent (Given (ascii ''text''))
        (Given (ascii ''Adevarul.ro'')) (Given (ascii ''https://adevarul.ro''))
        (Given \<lparr>year = 2023, month = 3, day = 30, hour = 12, minute = 42, second = 34\<rparr>))
   = Inr None"
  by (simp add: NewsDTO_init_def required_field_def author_field_def)

subsection \<open>The fields that LocationInfoDTO requires\<close>

text \<open>
  Claim C2: constructing a \<open>LocationInfoDTO\<close> fails with a validation error when
  \<open>location\<close> or \<open>weather\<close> is absent or \<open>None\<close>; with both given it succeeds when
  \<open>news\<close> is absent or \<open>None\<close> and \<open>currency_rates\<close> is the empty dict, and when
  \<open>news\<close> is a list.
\<close>

theorem LocationInfoDTO_requires_location_and_weather:
  "((l = Absent \<or> l = PyNone \<or> w = Absent \<or> w = PyNone) \<longrightarrow>
      (\<exists>errs. errs \<noteq> [] \<and> LocationInfoDTO_init l w c n = Inl (ValidationError errs))) \<and>
   LocationInfoDTO_init (Given lv) (Given wv) (Given []) Absent
     = Inr \<lparr>location = lv, weather = wv, currency_rates = [], news = None\<rparr> \<and>
   LocationInfoDTO_init (Given lv) (Given wv) (Given []) PyNone
     = Inr \<lparr>location = lv, weather = wv, currency_rates = [], news = None\<rparr> \<and>
   LocationInfoDTO_init (Given lv) (Given wv) (Given cv) (Given nv)
     = Inr \<lparr>location = lv, weather = wv, currency_rates = cv, news = Some nv\<rparr>"
  by (cases l; cases w; cases c; cases n)
     (simp_all add: LocationInfoDTO_init_def required_field_def news_field_def field_errors_def)

theorem LocationInfoDTO_requires_location_and_weather_witness:
  "LocationInfoDTO_init PyNone (Given (weather example_info)) (Given []) Absent
     = Inl (ValidationError [(''location'', type_error_none_not_allowed)]) \<and>
   LocationInfoDTO_init (Given (location example_info)) Absent (Given []) PyNone
     = Inl (ValidationError [(''weather'', value_error_missing)]) \<and>
   LocationInfoDTO_init (Given (location example_info)) (Given (weather example_info)) (Given []) Absent
     = Inr \<lparr>location = location example_info, weather = weather example_info,
            currency_rates = [], news = None\<rparr>"
  using LocationInfoDTO_requires_location_and_weather
          [of PyNone "Given (weather example_info)" "Given []" Absent
              "location example_info" "weather example_info" "[]" "[]"]
        LocationInfoDTO_requires_location_and_weather
          [of "Given (location example_info)" Absent "Given []" PyNone
              "location example_info" "weather example_info" "[]" "[]"]
  by (simp add: LocationInfoDTO_init_def required_field_def news_field_def field_errors_def)

subsection \<open>The length of the country code\<close>

text \<open>
  Claim C3: the \<open>alpha2code\<close> of every constructed \<open>LocationDTO\<close> has length 2, and
  constructing a \<open>LocationDTO\<close> with an \<open>alpha2code\<close> of another length fails with a
  validation error.
\<close>

theorem LocationDTO_alpha2code_length:
  "(LocationDTO_init c a = Inr d \<longrightarrow> length (alpha2code d) = 2) \<and>
   (length s \<noteq> 2 \<longrightarrow>
      (\<exists>errs. errs \<noteq> [] \<and> LocationDTO_init c (Given s) = Inl (ValidationError errs)))"
  by (cases a; cases c)
     (auto simp: LocationDTO_init_def alpha2code_field_def required_field_def constr_length_def
        field_errors_def split: sum.splits if_splits)

theorem LocationDTO_alpha2code_length_witness:
  "length (alpha2code \<lparr>capital = ascii ''Moscow'', alpha2code = ascii ''RU''\<rparr>) = 2 \<and>
   LocationDTO_init (Given (ascii ''Moscow'')) (Given (ascii ''RU''))
     = Inr \<lparr>capital = ascii ''Moscow'', alpha2code = ascii ''RU''\<rparr> \<and>
   length (ascii ''RUS'') \<noteq> 2 \<and>
   (\<exists>errs. errs \<noteq> [] \<and>
      LocationDTO_init (Given (ascii ''Moscow'')) (Given (ascii ''RUS'')) = Inl (ValidationError errs))"
proof -
  have ok: "LocationDTO_init (Given (ascii ''Moscow'')) (Given (ascii ''RU''))
              = Inr \<lparr>capital = ascii ''Moscow'', alpha2code = ascii ''RU''\<rparr>"
    by (simp add: LocationDTO_init_def alpha2code_field_def required_field_def constr_length_def
          ascii_def)
  have long: "length (ascii ''RUS'') \<noteq> 2"
    by (simp add: ascii_def)
  from LocationDTO_alpha2code_length
         [of "Given (ascii ''Moscow'')" "Given (ascii ''RU'')"
             "\<lparr>capital = ascii ''Moscow'', alpha2code = ascii ''RU''\<rparr>" "ascii ''RUS''"]
       ok long
  show ?thesis by blast
qed

section \<open>Equality and hashing of LocationDTO\<close>

lemma LocationDTO_eq_iff:
  "LocationDTO_eq st a b \<longleftrightarrow>
     capital (st a) = capital (st b) \<and> alpha2code (st a) = alpha2code (st b)"
  by (auto simp: LocationDTO_eq_def dict_eq_def LocationDTO_dict_def)

lemma same_key_fields:
  assumes "capital (st a) = capital (st b)" and "alpha2code (st a) = alpha2code (st b)"
  shows "same_key h st a b" and "same_key h st k a \<longleftrightarrow> same_key h st k b"
  using assms by (auto simp: same_key_def LocationDTO_eq_iff LocationDTO_hash_def LocationDTO_dict_def)

lemma set_contains_add:
  assumes "capital (st a) = capital (st b)" and "alpha2code (st a) = alpha2code (st b)"
  shows "set_contains h st (set_add h st s a) b"
proof (cases "set_contains h st s a")
  case True
  then obtain k where "k \<in> set s" and "same_key h st k a"
    by (auto simp: set_contains_def list_ex_iff)
  with same_key_fields(2) [OF assms] have "k \<in> set s \<and> same_key h st k b"
    by blast
  with True show ?thesis
    by (auto simp: set_add_def set_contains_def list_ex_iff)
next
  case False
  with same_key_fields(1) [OF assms] show ?thesis
    by (auto simp: set_add_def set_contains_def list_ex_iff)
qed

lemma frozenset_pair:
  assumes "capital (st a) = capital (st b)" and "alpha2code (st a) = alpha2code (st b)"
  shows "frozenset h st [a, b] = [a]"
  using same_key_fields(1) [OF assms]
  by (simp add: frozenset_def set_add_def set_contains_def)

lemma dict_get_set:
  assumes "capital (st a) = capital (st b)" and "alpha2code (st a) = alpha2code (st b)"
  shows "dict_get h st (dict_set h st kvs a v) b = Some v"
proof (induction kvs)
  case Nil
  from same_key_fields(1) [OF assms] show ?case by simp
next
  case (Cons kv kvs)
  obtain k w where kv: "kv = (k, w)" by (cases kv)
  from same_key_fields(2) [OF assms] have "same_key h st k a \<longleftrightarrow> same_key h st k b" .
  with Cons kv show ?case by simp
qed

text \<open>
  Claim C4, as amended: two \<open>LocationDTO\<close> objects with equal \<open>capital\<close> and
  \<open>alpha2code\<close> are equal, have equal hashes and are interchangeable as elements of a set
  and as keys of a dict: a set that received one contains the other, a set built from
  both has one element, and a value stored under one is found under the other. The
  objects are not immutable: assigning a field succeeds and changes the object, which
  then no longer equals an object that kept the old value.
\<close>

theorem LocationDTO_value_equality:
  assumes "capital (st a) = capital (st b)" and "alpha2code (st a) = alpha2code (st b)"
  shows "LocationDTO_eq st a b \<and>
         LocationDTO_hash h st a = LocationDTO_hash h st b \<and>
         set_contains h st (set_add h st s a) b \<and>
         frozenset h st [a, b] = [a] \<and>
         dict_get h st (dict_set h st kvs a v) b = Some v \<and>
         LocationDTO_setattr st a ''capital'' c = Inr (st(a := (st a)\<lparr>capital := c\<rparr>)) \<and>
         (a \<noteq> b \<and> c \<noteq> capital (st b) \<longrightarrow>
            \<not> LocationDTO_eq (st(a := (st a)\<lparr>capital := c\<rparr>)) a b)"
proof -
  have e: "LocationDTO_eq st a b"
    using assms by (simp add: LocationDTO_eq_iff)
  have hs: "LocationDTO_hash h st a = LocationDTO_hash h st b"
    using assms by (simp add: LocationDTO_hash_def LocationDTO_dict_def)
  have sa: "LocationDTO_setattr st a ''capital'' c = Inr (st(a := (st a)\<lparr>capital := c\<rparr>))"
    by (simp add: LocationDTO_setattr_def)
  have ne: "a \<noteq> b \<and> c \<noteq> capital (st b) \<longrightarrow>
            \<not> LocationDTO_eq (st(a := (st a)\<lparr>capital := c\<rparr>)) a b"
    by (simp add: LocationDTO_eq_iff)
  show ?thesis
    using e hs set_contains_add [OF assms] frozenset_pair [OF assms] dict_get_set [OF assms] sa ne
    by - (intro conjI, assumption+)
qed

theorem LocationDTO_value_equality_witness:
  "capital (two_objects 0) = capital (two_objects 1) \<and>
   alpha2code (two_objects 0) = alpha2code (two_objects 1) \<and>
   LocationDTO_eq two_objects 0 1 \<and>
   LocationDTO_hash example_hash two_objects 0 = LocationDTO_hash example_hash two_objects 1 \<and>
   set_contains example_hash two_objects (set_add example_hash two_objects [] 0) 1 \<and>
   frozenset example_hash two_objects [0, 1] = [0] \<and>
   dict_get example_hash two_objects (dict_set example_hash two_objects [] 0 True) 1 = Some True \<and>
   LocationDTO_setattr two_objects 0 ''capital'' (ascii ''Omsk'')
     = Inr (two_objects(0 := (two_objects 0)\<lparr>capital := ascii ''Omsk''\<rparr>)) \<and>
   \<not> LocationDTO_eq (two_objects(0 := (two_objects 0)\<lparr>capital := ascii ''Omsk''\<rparr>)) 0 1"
proof -
  have f: "capital (two_objects 0) = capital (two_objects 1)"
       "alpha2code (two_objects 0) = alpha2code (two_objects 1)"
    by (simp_all add: two_objects_def new_store_def)
  have g: "(0::nat) \<noteq> 1 \<and> ascii ''Omsk'' \<noteq> capital (two_objects 1)"
    by (simp add: two_objects_def new_store_def ascii_def)
  from LocationDTO_value_equality [OF f, of example_hash "[]" "[]" True "ascii ''Omsk''"] f g
  show ?thesis by simp
qed

text \<open>
  The claim as stated fails: after the construction of a \<open>LocationDTO\<close>, the assignment
  \<^verbatim>\<open>obj.capital = "Omsk"\<close> succeeds and the field has changed.
\<close>

theorem LocationDTO_assignment_counterexample:
  "LocationDTO_init (Given (ascii ''Moscow'')) (Given (ascii ''RU''))
     = Inr \<lparr>capital = ascii ''Moscow'', alpha2code = ascii ''RU''\<rparr> \<and>
   capital_at 0 (new_store \<lparr>capital = ascii ''Moscow'', alpha2code = ascii ''RU''\<rparr>)
     = ascii ''Moscow'' \<and>
   map_sum id (capital_at 0)
     (LocationDTO_setattr (new_store \<lparr>capital = ascii ''Moscow'', alpha2code = ascii ''RU''\<rparr>)
        0 ''capital'' (ascii ''Omsk''))
     = Inr (ascii ''Omsk'') \<and>
   ascii ''Omsk'' \<noteq> ascii ''Moscow''"
  by (simp add: LocationDTO_init_def alpha2code_field_def required_field_def constr_length_def
        LocationDTO_setattr_def capital_at_def new_store_def ascii_def)

section \<open>Digits\<close>

lemma str_nat_digit: "n < 10 \<Longrightarrow> str_nat n = [48 + n]"
  by (simp add: str_nat.simps)

lemma str_nat_step: "10 \<le> n \<Longrightarrow> str_nat n = str_nat (n div 10) @ [48 + n mod 10]"
  by (subst str_nat.simps) simp

lemma str_nat_not_Nil: "str_nat n \<noteq> []"
  by (subst str_nat.simps) simp

lemma str_nat_digits: "c \<in> set (str_nat n) \<Longrightarrow> 48 \<le> c \<and> c \<le> 57"
proof (induction n arbitrary: c rule: str_nat.induct)
  case (1 n)
  show ?case
  proof (cases "n < 10")
    case True
    with "1.prems" show ?thesis by (simp add: str_nat_digit)
  next
    case False
    with "1.prems" have "c \<in> set (str_nat (n div 10)) \<or> c = 48 + n mod 10"
      by (auto simp: str_nat_step)
    moreover have "n mod 10 < 10" by simp
    ultimately show ?thesis using "1.IH" [OF False] by fastforce
  qed
qed

lemma mod1000_digits:
  fixes n :: nat
  shows "(n mod 1000) div 100 = (n div 100) mod 10"
    and "((n mod 1000) div 10) mod 10 = (n div 10) mod 10"
    and "(n mod 1000) mod 10 = n mod 10"
proof -
  have "n mod (100 * 10) = 100 * (n div 100 mod 10) + n mod 100"
    by (rule mod_mult2_eq)
  then show "(n mod 1000) div 100 = (n div 100) mod 10" by simp
  have "n mod (10 * 100) = 10 * (n div 10 mod 100) + n mod 10"
    by (rule mod_mult2_eq)
  then have "(n mod 1000) div 10 = n div 10 mod 100" by simp
  moreover have "n div 10 mod 100 mod 10 = n div 10 mod 10"
    by (simp add: mod_mod_cancel)
  ultimately show "((n mod 1000) div 10) mod 10 = (n div 10) mod 10" by simp
  show "(n mod 1000) mod 10 = n mod 10"
    by (simp add: mod_mod_cancel)
qed

lemma str_nat_split3:
  assumes "1000 \<le> n"
  shows "str_nat n = str_nat (n div 1000) @ pad3 (n mod 1000)"
proof -
  have a: "str_nat n = str_nat (n div 10) @ [48 + n mod 10]"
    using assms by (simp add: str_nat_step)
  have b: "str_nat (n div 10) = str_nat (n div 100) @ [48 + (n div 10) mod 10]"
    using assms str_nat_step [of "n div 10"] by (simp add: div_mult2_eq [symmetric])
  have c: "str_nat (n div 100) = str_nat (n div 1000) @ [48 + (n div 100) mod 10]"
    using assms str_nat_step [of "n div 100"] by (simp add: div_mult2_eq [symmetric])
  have d: "(n mod 1000) div 100 = (n div 100) mod 10" "((n mod 1000) div 10) mod 10 = (n div 10) mod 10"
          "(n mod 1000) mod 10 = n mod 10"
    by (rule mod1000_digits)+
  show ?thesis
    by (simp add: a b c d pad3_def)
qed

lemma length_str_nat_small: "n < 1000 \<Longrightarrow> length (str_nat n) \<le> 3"
proof -
  assume n: "n < 1000"
  show ?thesis
  proof (cases "n < 10")
    case True then show ?thesis by (simp add: str_nat_digit)
  next
    case False
    note n10 = this
    show ?thesis
    proof (cases "n < 100")
      case True
      with n10 show ?thesis by (simp add: str_nat_step str_nat_digit)
    next
      case False
      with n have "n div 10 div 10 < 10" "10 \<le> n div 10" "10 \<le> n" by simp_all
      then show ?thesis by (simp add: str_nat_step str_nat_digit)
    qed
  qed
qed

lemma pad2_digits: "m < 100 \<Longrightarrow> pad2 m = [48 + m div 10, 48 + m mod 10]"
  by (cases "m < 10") (simp_all add: pad2_def str_nat_digit str_nat_step)

lemma str_nat_split2:
  assumes "100 \<le> n"
  shows "str_nat n = str_nat (n div 100) @ pad2 (n mod 100)"
proof -
  have a: "str_nat n = str_nat (n div 10) @ [48 + n mod 10]"
    using assms by (simp add: str_nat_step)
  have b: "str_nat (n div 10) = str_nat (n div 100) @ [48 + (n div 10) mod 10]"
    using assms str_nat_step [of "n div 10"] by (simp add: div_mult2_eq [symmetric])
  have "n mod (10 * 10) = 10 * (n div 10 mod 10) + n mod 10"
    by (rule mod_mult2_eq)
  then have d: "(n mod 100) div 10 = (n div 10) mod 10" by simp
  have e: "(n mod 100) mod 10 = n mod 10"
    by (simp add: mod_mod_cancel)
  show ?thesis
    by (simp add: a b d e pad2_digits)
qed

lemma length_pad2: "m < 100 \<Longrightarrow> length (pad2 m) = 2"
  by (simp add: pad2_digits)

lemma num_digits_step: "10 \<le> n \<Longrightarrow> num_digits n = Suc (num_digits (n div 10))"
  by (simp add: num_digits_def str_nat_step)

lemma num_digits_pos: "0 < num_digits n"
  by (simp add: num_digits_def str_nat_not_Nil)

lemma num_digits_upper: "n < 10 ^ num_digits n"
proof (induction n rule: str_nat.induct)
  case (1 n)
  show ?case
  proof (cases "n < 10")
    case True
    then show ?thesis by (simp add: num_digits_def str_nat_digit)
  next
    case False
    from "1.IH" [OF False] have "n < 10 * 10 ^ num_digits (n div 10)" by simp
    with False show ?thesis by (simp add: num_digits_step)
  qed
qed

lemma num_digits_lower: "0 < n \<Longrightarrow> 10 ^ (num_digits n - 1) \<le> n"
proof (induction n rule: str_nat.induct)
  case (1 n)
  show ?case
  proof (cases "n < 10")
    case True
    with \<open>0 < n\<close> show ?thesis by (simp add: num_digits_def str_nat_digit)
  next
    case False
    then have pos: "0 < n div 10" by simp
    obtain l where l: "num_digits (n div 10) = Suc l"
      using num_digits_pos [of "n div 10"] by (cases "num_digits (n div 10)") simp_all
    from "1.IH" [OF False pos] l have "(10::nat) ^ l \<le> n div 10" by simp
    then have "(10::nat) * 10 ^ l \<le> 10 * (n div 10)" by simp
    also have "\<dots> \<le> n" by simp
    finally show ?thesis using False l by (simp add: num_digits_step)
  qed
qed

lemma num_digits_le_iff:
  "num_digits n \<le> k \<longleftrightarrow> n < 10 ^ k" if "0 < k" "0 < n"
proof
  assume "num_digits n \<le> k"
  then have "(10::nat) ^ num_digits n \<le> 10 ^ k" by simp
  with num_digits_upper [of n] show "n < 10 ^ k" by (rule less_le_trans)
next
  assume lt: "n < 10 ^ k"
  show "num_digits n \<le> k"
  proof (rule ccontr)
    assume "\<not> num_digits n \<le> k"
    then have "k \<le> num_digits n - 1" by simp
    then have "(10::nat) ^ k \<le> 10 ^ (num_digits n - 1)" by simp
    with num_digits_lower [OF \<open>0 < n\<close>] lt show False by linarith
  qed
qed

lemma num_digits_small: "n < 10 ^ 28 \<Longrightarrow> num_digits n \<le> 28"
proof (cases "n = 0")
  case True
  then show ?thesis by (simp add: num_digits_def str_nat_digit)
next
  case False
  assume "n < 10 ^ 28"
  with False show ?thesis by (simp add: num_digits_le_iff)
qed

section \<open>The population\<close>

lemma group_reversed_short: "length ds \<le> 3 \<Longrightarrow> group_reversed ds = ds"
  by (cases ds rule: group_reversed.cases) simp_all

lemma insert_thousands_short: "length ds \<le> 3 \<Longrightarrow> insert_thousands ds = ds"
  by (simp add: insert_thousands_def group_reversed_short)

lemma insert_thousands_append3:
  "xs \<noteq> [] \<Longrightarrow> insert_thousands (xs @ [a, b, c]) = insert_thousands xs @ [44, a, b, c]"
  by (cases "rev xs") (simp_all add: insert_thousands_def)

lemma replace_comma_digits: "replace_char 44 46 (str_nat n) = str_nat n"
proof -
  have "\<forall>c \<in> set (str_nat n). c \<noteq> 44"
    using str_nat_digits by fastforce
  then show ?thesis
    by (simp add: replace_char_def map_idI)
qed

lemma replace_comma_pad3: "m < 1000 \<Longrightarrow> replace_char 44 46 (pad3 m) = pad3 m"
  by (simp add: replace_char_def pad3_def)

lemma grouped_nat:
  "replace_char 44 46 (insert_thousands (str_nat n)) = group_thousands n"
proof (induction n rule: group_thousands.induct)
  case (1 n)
  show ?case
  proof (cases "n < 1000")
    case True
    then show ?thesis
      by (simp add: insert_thousands_short length_str_nat_small replace_comma_digits
            group_thousands.simps [of n])
  next
    case False
    then have split: "str_nat n = str_nat (n div 1000) @ pad3 (n mod 1000)"
      by (simp add: str_nat_split3)
    have "insert_thousands (str_nat n)
            = insert_thousands (str_nat (n div 1000)) @ 44 # pad3 (n mod 1000)"
      unfolding split pad3_def
      by (simp add: insert_thousands_append3 str_nat_not_Nil)
    then have "replace_char 44 46 (insert_thousands (str_nat n))
            = replace_char 44 46 (insert_thousands (str_nat (n div 1000)))
                @ 46 # replace_char 44 46 (pad3 (n mod 1000))"
      by (simp add: replace_char_def)
    with False "1.IH" show ?thesis
      by (simp add: replace_comma_pad3 group_thousands.simps [of n])
  qed
qed

text \<open>
  Claim C6: for a non-negative population, \<open>_format_population\<close> returns the decimal
  representation of the number grouped in threes with \<open>.\<close> as the grouping mark; 28875
  gives \<open>28.875\<close>.
\<close>

theorem format_population_grouped:
  assumes "0 \<le> population (location location_info)"
  shows "format_population location_info
           = group_thousands (nat (population (location location_info)))"
  using assms by (simp add: format_population_def format_comma_def grouped_nat)

theorem format_population_grouped_witness:
  "0 \<le> population (location example_info) \<and>
   population (location example_info) = 28875 \<and>
   format_population example_info = ascii ''28.875''"
proof -
  have p: "population (location example_info) = 28875"
    by (simp add: example_info_def)
  have g: "group_thousands 28875 = ascii ''28.875''"
    by (simp add: group_thousands.simps str_nat.simps pad3_def ascii_def)
  from format_population_grouped [of example_info] p g show ?thesis by simp
qed

section \<open>The currency rates\<close>

subsection \<open>The conversion of a float is exact\<close>

lemma dvd_two_power:
  fixes a :: nat
  shows "a dvd 2 ^ j \<Longrightarrow> \<exists>i\<le>j. a = 2 ^ i"
proof (induction j arbitrary: a)
  case 0
  then show ?case by simp
next
  case (Suc j)
  show ?case
  proof (cases "even a")
    case True
    then obtain b where a: "a = 2 * b" by (elim evenE)
    with Suc.prems have "b dvd 2 ^ j" by simp
    from Suc.IH [OF this] obtain i where "i \<le> j" "b = 2 ^ i" by blast
    with a have "Suc i \<le> Suc j \<and> a = 2 ^ Suc i" by simp
    then show ?thesis by blast
  next
    case False
    then have "coprime a 2" by simp
    with Suc.prems have "a dvd 2 ^ j"
      by (simp add: coprime_dvd_mult_right_iff)
    from Suc.IH [OF this] obtain i where "i \<le> j" "a = 2 ^ i" by blast
    then have "i \<le> Suc j \<and> a = 2 ^ i" by simp
    then show ?thesis by blast
  qed
qed

lemma bit_length_two_power: "bit_length (2 ^ t) = Suc t"
  by (induction t) (simp_all add: bit_length.simps [of "2 * _"] bit_length.simps [of 1] bit_length.simps [of 0] bit_length.simps [of "Suc 0"])

lemma as_integer_ratio_neg:
  assumes "e < 0"
  obtains i where "i \<le> nat (- e)"
    and "as_integer_ratio m e = (m div 2 ^ i, 2 ^ (nat (- e) - i))"
    and "2 ^ i dvd m"
proof -
  let ?j = "nat (- e)"
  have "gcd m (2 ^ ?j) dvd 2 ^ ?j" by simp
  from dvd_two_power [OF this] obtain i where i: "i \<le> ?j" "gcd m (2 ^ ?j) = 2 ^ i"
    by blast
  have "(2::nat) ^ ?j div 2 ^ i = 2 ^ (?j - i)"
    using i(1) by (simp add: power_diff)
  with assms i have "as_integer_ratio m e = (m div 2 ^ i, 2 ^ (?j - i))"
    by (simp add: as_integer_ratio_def Let_def)
  moreover have "2 ^ i dvd m"
    using i(2) gcd_dvd1 [of m "2 ^ ?j"] by simp
  ultimately show ?thesis using i(1) that by blast
qed

lemma dec_abs_neg: "dec_abs c (- int k) = of_nat c / 10 ^ k"
  by (cases "k = 0") (simp_all add: dec_abs_def)

lemma Decimal_from_float_value:
  "\<exists>c x. Decimal_from_float (Finite s m e) = Dec s c x \<and> dec_abs c x = float_abs m e"
proof (cases "0 \<le> e")
  case True
  then have "Decimal_from_float (Finite s m e) = Dec s (m * 2 ^ nat e) 0"
    by (simp add: Decimal_from_float_def as_integer_ratio_def bit_length_two_power [of 0, simplified])
  moreover have "dec_abs (m * 2 ^ nat e) 0 = float_abs m e"
    using True by (simp add: dec_abs_def float_abs_def)
  ultimately show ?thesis by blast
next
  case False
  then have neg: "e < 0" by simp
  let ?j = "nat (- e)"
  from as_integer_ratio_neg [OF neg, of m] obtain i where i: "i \<le> ?j"
    and air: "as_integer_ratio m e = (m div 2 ^ i, 2 ^ (?j - i))" and dvd: "2 ^ i dvd m"
    by blast
  let ?k = "?j - i"
  let ?n = "m div 2 ^ i"
  have dff: "Decimal_from_float (Finite s m e) = Dec s (?n * 5 ^ ?k) (- int ?k)"
    by (simp add: Decimal_from_float_def air bit_length_two_power Let_def)
  have m: "m = ?n * 2 ^ i" using dvd by simp
  have j: "?j = ?k + i" using i by simp
  have "(of_nat (?n * 5 ^ ?k) :: rat) / 10 ^ ?k = of_nat ?n / 2 ^ ?k"
  proof -
    have "(10::rat) ^ ?k = 5 ^ ?k * 2 ^ ?k"
      by (simp add: power_mult_distrib [symmetric])
    then show ?thesis by simp
  qed
  also have "\<dots> = of_nat (?n * 2 ^ i) / 2 ^ (?k + i)"
    by (simp add: power_add)
  also have "\<dots> = of_nat m / 2 ^ ?j"
    using m j by simp
  finally have val: "(of_nat (?n * 5 ^ ?k) :: rat) / 10 ^ ?k = of_nat m / 2 ^ ?j" .
  have "float_abs m e = of_nat m / 2 ^ ?j"
    using neg by (simp add: float_abs_def)
  with val have "dec_abs (?n * 5 ^ ?k) (- int ?k) = float_abs m e"
    by (simp only: dec_abs_neg)
  with dff show ?thesis by blast
qed

subsection \<open>Dropping digits rounds half-up\<close>

lemma half_up_aux:
  fixes a t :: nat
  assumes "t < 2"
  shows "(2 * a + 10 + t) div 20 = (if 5 \<le> a mod 10 then a div 10 + 1 else a div 10)"
proof -
  define q r where "q = a div 10" and "r = a mod 10"
  have a: "a = 10 * q + r" and r: "r < 10"
    by (simp_all add: q_def r_def)
  show ?thesis
  proof (cases "5 \<le> r")
    case True
    with r assms have "2 * a + 10 + t = 20 * (q + 1) + (2 * r + t - 10)" and "2 * r + t - 10 < 20"
      by (simp_all add: a)
    then have "(2 * a + 10 + t) div 20 = q + 1"
      by (simp only: div_mult_self4 div_less)
    with True show ?thesis by (simp add: q_def r_def)
  next
    case False
    with r assms have "2 * a + 10 + t = 20 * q + (2 * r + t + 10)" and "2 * r + t + 10 < 20"
      by (simp_all add: a)
    then have "(2 * a + 10 + t) div 20 = q"
      by (simp only: div_mult_self4 div_less)
    with False show ?thesis by (simp add: q_def r_def)
  qed
qed

lemma half_up_digit:
  fixes c P :: nat
  assumes "0 < P"
  shows "(2 * c + 10 * P) div (20 * P)
           = (if 5 \<le> (c div P) mod 10 then c div (10 * P) + 1 else c div (10 * P))"
proof -
  let ?a = "c div P" and ?b = "c mod P"
  have b: "?b < P" using assms by simp
  have "\<And>a b. 2 * (P * a + b) + 10 * P = P * (2 * a + 10) + 2 * b"
    by (simp add: algebra_simps)
  then have "2 * (P * ?a + ?b) + 10 * P = P * (2 * ?a + 10) + 2 * ?b" .
  then have eq: "2 * c + 10 * P = P * (2 * ?a + 10) + 2 * ?b"
    by (simp only: mult_div_mod_eq)
  have "(2 * c + 10 * P) div P = 2 * ?a + 10 + (2 * ?b) div P"
    by (subst eq) (use assms in simp)
  moreover have "(2 * ?b) div P < 2"
    using b assms by (simp add: div_less_iff_less_mult)
  moreover have "(2 * c + 10 * P) div (20 * P) = (2 * c + 10 * P) div P div 20"
    by (simp add: div_mult2_eq mult.commute)
  moreover have "c div (10 * P) = ?a div 10"
    by (simp add: div_mult2_eq mult.commute)
  ultimately show ?thesis
    by (simp only: half_up_aux)
qed

lemma half_up_of_nat: "half_up_hundredths (of_nat N / 100) = N"
proof -
  have "\<lfloor>(of_nat N :: rat) + 1 / 2\<rfloor> = int N"
    by (rule floor_unique) simp_all
  then show ?thesis by (simp add: half_up_hundredths_def)
qed

lemma half_up_fraction:
  assumes "0 < D"
  shows "half_up_hundredths (of_nat c / of_nat (100 * D)) = (2 * c + D) div (2 * D)"
proof -
  have "(of_nat c :: rat) / of_nat (100 * D) * 100 + 1 / 2 = of_nat (2 * c + D) / of_nat (2 * D)"
    using assms by (simp add: field_simps)
  then have "\<lfloor>(of_nat c :: rat) / of_nat (100 * D) * 100 + 1 / 2\<rfloor> = int ((2 * c + D) div (2 * D))"
    by (simp only: floor_divide_of_nat_eq)
  then show ?thesis by (simp only: half_up_hundredths_def nat_int)
qed

lemma rescale_value: "rescale_half_up c x (- 2) = half_up_hundredths (dec_abs c x)"
proof (cases "- 2 \<le> x")
  case True
  then have r: "rescale_half_up c x (- 2) = c * 10 ^ nat (x + 2)"
    by (simp add: rescale_half_up_def)
  have "dec_abs c x = of_nat (c * 10 ^ nat (x + 2)) / 100"
  proof (cases "0 \<le> x")
    case True
    then have "nat (x + 2) = nat x + 2" by simp
    with True show ?thesis by (simp add: dec_abs_def)
  next
    case False
    with \<open>- 2 \<le> x\<close> have "x = - 1 \<or> x = - 2" by arith
    then show ?thesis by (auto simp: dec_abs_def)
  qed
  with r show ?thesis by (simp only: half_up_of_nat)
next
  case False
  define k where "k = nat (- 2 - x)"
  with False have k: "0 < k" "nat (- x) = k + 2" by simp_all
  define P :: nat where "P = 10 ^ (k - 1)"
  have P: "0 < P" "10 ^ k = 10 * P"
    using k(1) by (cases k; simp add: P_def)+
  have "rescale_half_up c x (- 2)
          = (if 5 \<le> (c div P) mod 10 then c div (10 * P) + 1 else c div (10 * P))"
    using False by (simp add: rescale_half_up_def Let_def k_def [symmetric] P(2)) (simp add: P_def)
  also have "\<dots> = (2 * c + 10 * P) div (20 * P)"
    using half_up_digit [OF P(1), of c] by simp
  also have "\<dots> = half_up_hundredths (of_nat c / of_nat (100 * (10 * P)))"
    using P(1) half_up_fraction [of "10 * P" c] by simp
  also have "of_nat c / of_nat (100 * (10 * P)) = dec_abs c x"
  proof -
    have "(of_nat (10 ^ k) :: rat) = of_nat (10 * P)"
      by (simp only: P(2))
    then have "(10::rat) ^ k = 10 * of_nat P" by simp
    with False k(2) show ?thesis by (simp add: dec_abs_def power_add)
  qed
  finally show ?thesis .
qed

subsection \<open>Quantizing within the precision\<close>

lemma half_up_mono: "x \<le> y \<Longrightarrow> half_up_hundredths x \<le> half_up_hundredths y"
  by (simp add: half_up_hundredths_def nat_mono floor_mono)

lemma half_up_power: "half_up_hundredths (10 ^ 26) = 10 ^ 28"
proof -
  have "(10::rat) ^ 26 = of_nat (10 ^ 28) / 100" by simp
  then show ?thesis by (simp only: half_up_of_nat)
qed

lemma dec_abs_lower:
  assumes "0 < c" and "26 \<le> adjusted c x"
  shows "10 ^ 26 \<le> dec_abs c x"
proof -
  define L where "L = num_digits c"
  have c: "10 ^ (L - 1) \<le> c"
    using num_digits_lower [OF assms(1)] by (simp add: L_def)
  have L: "0 < L" by (simp add: L_def num_digits_pos)
  from assms(2) have adj: "27 \<le> x + int L" by (simp add: adjusted_def L_def)
  show ?thesis
  proof (cases "0 \<le> x")
    case True
    from adj True L have "26 \<le> (L - 1) + nat x" by linarith
    then have "(10::nat) ^ 26 \<le> 10 ^ ((L - 1) + nat x)"
      by (intro power_increasing) simp_all
    also have "\<dots> = 10 ^ (L - 1) * 10 ^ nat x" by (simp add: power_add)
    also have "\<dots> \<le> c * 10 ^ nat x" using c by simp
    finally have "(of_nat (10 ^ 26) :: rat) \<le> of_nat (c * 10 ^ nat x)"
      by (simp only: of_nat_le_iff)
    with True show ?thesis by (simp add: dec_abs_def)
  next
    case False
    from adj False L have "26 + nat (- x) \<le> L - 1" by linarith
    then have "(10::nat) ^ (26 + nat (- x)) \<le> 10 ^ (L - 1)"
      by (intro power_increasing) simp_all
    with c have "(10::nat) ^ 26 * 10 ^ nat (- x) \<le> c" by (simp add: power_add)
    then have "(of_nat (10 ^ 26 * 10 ^ nat (- x)) :: rat) \<le> of_nat c"
      by (simp only: of_nat_le_iff)
    then have "(10::rat) ^ 26 * 10 ^ nat (- x) \<le> of_nat c" by simp
    then have "(10::rat) ^ 26 \<le> of_nat c / 10 ^ nat (- x)"
      by (simp add: pos_le_divide_eq)
    with False show ?thesis by (simp add: dec_abs_def)
  qed
qed

lemma quantize_finite:
  assumes "half_up_hundredths (dec_abs c x) < 10 ^ 28"
  shows "quantize (Dec s c x) (- 2) = Inr (Dec s (half_up_hundredths (dec_abs c x)) (- 2))"
proof (cases "c = 0")
  case True
  have "half_up_hundredths 0 = 0"
    using half_up_of_nat [of 0] by simp
  with True show ?thesis by (simp add: quantize_def dec_abs_def)
next
  case False
  let ?n = "half_up_hundredths (dec_abs c x)"
  have adj: "adjusted c x < 26"
  proof (rule ccontr)
    assume "\<not> adjusted c x < 26"
    with False have "10 ^ 26 \<le> dec_abs c x" by (intro dec_abs_lower) simp_all
    from half_up_mono [OF this] have "10 ^ 28 \<le> ?n" by (simp only: half_up_power)
    with assms show False by simp
  qed
  have nd: "num_digits ?n \<le> 28" using assms by (rule num_digits_small)
  then have "adjusted ?n (- 2) \<le> 25" by (simp add: adjusted_def)
  with False adj nd show ?thesis
    by (simp add: quantize_def rescale_value context_prec_def context_Emax_def)
qed

subsection \<open>The text of the quantized rate\<close>

lemma Decimal_str_two_places: "Decimal_str (Dec s n (- 2)) = two_decimals s n"
proof (cases "n < 100")
  case True
  then have small: "n div 100 = 0" "n mod 100 = n" by simp_all
  show ?thesis
  proof (cases "n < 10")
    case True
    then show ?thesis
      by (simp add: Decimal_str_def two_decimals_def small str_nat_digit pad2_def ascii_def)
  next
    case False
    with \<open>n < 100\<close> have "str_nat n = [48 + n div 10, 48 + n mod 10]"
      by (simp add: str_nat_step str_nat_digit)
    with False show ?thesis
      by (simp add: Decimal_str_def two_decimals_def small str_nat_digit pad2_def ascii_def)
  qed
next
  case False
  then have split: "str_nat n = str_nat (n div 100) @ pad2 (n mod 100)"
    by (simp add: str_nat_split2)
  have len: "length (str_nat n) = length (str_nat (n div 100)) + 2"
    by (simp add: split length_pad2)
  have pos: "0 < length (str_nat (n div 100))"
    by (simp add: str_nat_not_Nil)
  have "take (length (str_nat (n div 100))) (str_nat n) = str_nat (n div 100)"
       "drop (length (str_nat (n div 100))) (str_nat n) = pad2 (n mod 100)"
    by (simp_all add: split)
  with len pos show ?thesis
    by (simp add: Decimal_str_def two_decimals_def Let_def ascii_def)
qed

theorem format_rate_finite:
  assumes "half_up_hundredths (float_abs m e) < 10 ^ 28"
  shows "format_rate currency (Finite s m e)
           = Inr (currency @ ascii '' = '' @ two_decimals s (half_up_hundredths (float_abs m e))
                    @ [32, 1088, 1091, 1073, 46])"
proof -
  from Decimal_from_float_value [of s m e] obtain c x
    where d: "Decimal_from_float (Finite s m e) = Dec s c x" and v: "dec_abs c x = float_abs m e"
    by blast
  from assms v have "half_up_hundredths (dec_abs c x) < 10 ^ 28" by simp
  from quantize_finite [OF this, of s] v d show ?thesis
    by (simp add: format_rate_def Decimal_str_two_places)
qed

lemma half_up_float:
  "half_up_hundredths (float_abs m e)
     = (if 0 \<le> e then m * 2 ^ nat e * 100
        else (200 * m + 2 ^ nat (- e)) div (2 * 2 ^ nat (- e)))"
proof (cases "0 \<le> e")
  case True
  have "float_abs m e = of_nat (m * 2 ^ nat e * 100) / 100"
    using True by (simp add: float_abs_def)
  with True show ?thesis by (simp only: half_up_of_nat if_True)
next
  case False
  let ?d = "2 ^ nat (- e) :: nat"
  have "float_abs m e = of_nat (100 * m) / of_nat (100 * ?d)"
    using False by (simp add: float_abs_def)
  moreover have "half_up_hundredths (of_nat (100 * m) / of_nat (100 * ?d)) = (2 * (100 * m) + ?d) div (2 * ?d)"
    by (rule half_up_fraction) simp
  ultimately show ?thesis using False by simp
qed

lemma format_rate_items_in_range:
  "list_all (\<lambda>item. rate_in_range (snd item)) items
     \<Longrightarrow> format_rate_items items = Inr (map rate_text items)"
proof (induction items)
  case Nil
  then show ?case by simp
next
  case (Cons item items)
  obtain currency rate where item: "item = (currency, rate)" by (cases item)
  with Cons.prems obtain s m e where rate: "rate = Finite s m e"
    and range: "half_up_hundredths (float_abs m e) < 10 ^ 28"
    by (cases rate) simp_all
  from Cons have "format_rate_items items = Inr (map rate_text items)" by simp
  with item rate format_rate_finite [OF range, of currency s] show ?case
    by (simp add: rate_text_def)
qed

text \<open>
  Claim C5, as amended: when every rate of \<open>currency_rates\<close> is a finite float whose value
  rounded half-up to two decimals has at most 28 digits, \<open>_format_currency_rates\<close> returns
  the texts \<open>code = rate rounded half-up to two decimals\<close> followed by the unit, one per
  item in the order of the dict, joined with a comma and a space. The rate 0.016503 of
  the currency EUR gives \<open>EUR = 0.02\<close> and the unit.
\<close>

theorem format_currency_rates_rounded:
  assumes "list_all (\<lambda>item. rate_in_range (snd item)) (currency_rates location_info)"
  shows "format_currency_rates location_info
           = Inr (join (ascii '', '') (map rate_text (currency_rates location_info)))"
  using format_rate_items_in_range [OF assms] by (simp add: format_currency_rates_def)

theorem format_currency_rates_rounded_witness:
  "list_all (\<lambda>item. rate_in_range (snd item)) (currency_rates example_info) \<and>
   format_currency_rates example_info = Inr (ascii ''EUR = 0.02'' @ [32, 1088, 1091, 1073, 46])"
proof -
  have r: "half_up_hundredths (float_abs 4756665897631699 (- 58)) = 2"
    by (simp add: half_up_float)
  have h: "list_all (\<lambda>item. rate_in_range (snd item)) (currency_rates example_info)"
    by (simp add: example_info_def r)
  have t: "two_decimals False 2 = ascii ''0.02''"
    by (simp add: two_decimals_def pad2_def str_nat.simps ascii_def)
  from format_currency_rates_rounded [OF h] h show ?thesis
    by (simp add: example_info_def rate_text_def r t ascii_def)
qed

text \<open>
  The claim as stated, for every rate, fails: for the rate \<open>1e26\<close>, the float
  \<open>5820766091346741 \<sqdot> 2\<^sup>3\<^sup>4\<close>, the quantized value would need 29 digits, \<open>quantize\<close>
  raises \<open>InvalidOperation\<close> and no text is produced.
\<close>

theorem format_currency_rates_counterexample:
  "format_currency_rates (example_info\<lparr>currency_rates := [(ascii ''EUR'', Finite False 5820766091346741 34)]\<rparr>)
     = Inl InvalidOperation"
proof -
  have d: "Decimal_from_float (Finite False 5820766091346741 34) = Dec False 100000000000000004764729344 0"
    by (simp add: Decimal_from_float_def as_integer_ratio_def bit_length.simps)
  have n: "num_digits 100000000000000004764729344 = 27"
    by (simp add: num_digits_def str_nat.simps)
  show ?thesis
    by (simp add: format_currency_rates_def format_rate_def d quantize_def adjusted_def n
          context_prec_def context_Emax_def)
qed

section \<open>The rendered tables\<close>

lemma info_row_cases:
  "info_row float_str location_info =
     (case timezones (location location_info) of
        [] \<Rightarrow> Inl IndexError
      | tz # rest \<Rightarrow>
          (case format_currency_rates location_info of
             Inl e \<Rightarrow> Inl e
           | Inr rates_cell \<Rightarrow>
               Inr [CStr (name (location location_info)),
                    CStr (country_capital (location location_info)),
                    CFloat (capital_latitude (location location_info)),
                    CFloat (capital_longitude (location location_info)),
                    CStr (subregion (location location_info)),
                    CStr (format_population location_info @ [32, 1095, 1077, 1083, 46]),
                    CStr (format_languages location_info),
                    CStr ((case capital_area (location location_info) of
                             None \<Rightarrow> ascii ''None'' | Some a \<Rightarrow> float_str a)
                          @ [32, 1082, 1074, 46, 32, 1082, 1084, 46]),
                    CStr tz, CStr rates_cell]))"
  by (simp add: info_row_def Let_def)

lemma info_row_length: "info_row float_str location_info = Inr row \<Longrightarrow> length row = 10"
  by (auto simp: info_row_cases split: list.splits sum.splits)

lemma add_row_fits:
  "field_names t \<noteq> [] \<Longrightarrow> length row = length (field_names t)
     \<Longrightarrow> add_row t row = Inr (t\<lparr>rows := rows t @ [row]\<rparr>)"
  by (simp add: add_row_def)

lemma length_news_row: "length (news_row article) = 6"
  by (simp add: news_row_def)

lemma add_news_rows_all:
  "length (field_names t) = 6
     \<Longrightarrow> add_news_rows t articles = Inr (t\<lparr>rows := rows t @ map news_row articles\<rparr>)"
proof (induction articles arbitrary: t)
  case Nil
  then show ?case by simp
next
  case (Cons article articles)
  from Cons.prems have "field_names t \<noteq> []" by auto
  with Cons.prems have step: "add_row t (news_row article) = Inr (t\<lparr>rows := rows t @ [news_row article]\<rparr>)"
    by (simp add: add_row_fits length_news_row)
  from Cons.prems have "length (field_names (t\<lparr>rows := rows t @ [news_row article]\<rparr>)) = 6"
    by simp
  from Cons.IH [OF this] step show ?case by simp
qed

lemma render_cases:
  "render float_str location_info =
     (case info_row float_str location_info of
        Inl e \<Rightarrow> Inl e
      | Inr row \<Rightarrow>
          (case news location_info of
             None \<Rightarrow> Inl TypeError
           | Some articles \<Rightarrow>
               Inr (PrettyTable_new\<lparr>field_names := info_field_names, rows := [row]\<rparr>,
                    [1055, 1086, 1075, 1086, 1076, 1072, 58],
                    PrettyTable_new\<lparr>field_names := weather_field_names,
                      rows := [weather_row float_str location_info]\<rparr>,
                    [1053, 1086, 1074, 1086, 1089, 1090, 1080],
                    news_table_start\<lparr>rows := map news_row articles\<rparr>)))"
proof (cases "info_row float_str location_info")
  case (Inl e)
  then show ?thesis by (simp add: render_def)
next
  case (Inr row)
  then have len: "length row = 10" by (rule info_row_length)
  have info: "add_row (PrettyTable_new\<lparr>field_names := info_field_names\<rparr>) row
                = Inr (PrettyTable_new\<lparr>field_names := info_field_names, rows := [row]\<rparr>)"
    using len by (simp add: add_row_def info_field_names_def PrettyTable_new_def)
  have weather: "add_row (PrettyTable_new\<lparr>field_names := weather_field_names\<rparr>)
                   (weather_row float_str location_info)
                = Inr (PrettyTable_new\<lparr>field_names := weather_field_names,
                         rows := [weather_row float_str location_info]\<rparr>)"
    by (simp add: add_row_def weather_field_names_def weather_row_def PrettyTable_new_def Let_def)
  have "length (field_names news_table_start) = 6"
    by (simp add: news_table_start_def news_field_names_def)
  from add_news_rows_all [OF this]
  have loop: "\<And>articles. add_news_rows news_table_start articles
                = Inr (news_table_start\<lparr>rows := map news_row articles\<rparr>)"
    by (simp add: news_table_start_def PrettyTable_new_def)
  show ?thesis
    unfolding render_def Inr sum.case info weather
    by (cases "news location_info") (simp_all add: news_loop_def loop)
qed

lemma example_info_cell:
  "format_currency_rates (example_info\<lparr>news := n\<rparr>)
     = Inr (ascii ''EUR = 0.02'' @ [32, 1088, 1091, 1073, 46])"
proof -
  have r: "half_up_hundredths (float_abs 4756665897631699 (- 58)) = 2"
    by (simp add: half_up_float)
  have t: "two_decimals False 2 = ascii ''0.02''"
    by (simp add: two_decimals_def pad2_def str_nat.simps ascii_def)
  have "format_rate_items (currency_rates example_info) = Inr (map rate_text (currency_rates example_info))"
    by (rule format_rate_items_in_range) (simp add: example_info_def r)
  then show ?thesis
    by (simp add: format_currency_rates_def example_info_def rate_text_def r t ascii_def)
qed

lemma example_info_row:
  "\<exists>row. info_row float_str (example_info\<lparr>news := n\<rparr>) = Inr row"
proof -
  have "timezones (location (example_info\<lparr>news := n\<rparr>)) = [ascii ''UTC+02:00'']"
    by (simp add: example_info_def)
  then show ?thesis
    by (simp add: info_row_cases example_info_cell)
qed



text \<open>
  Claim C8: when the \<open>timezones\<close> of the location are not empty, the time zone column of
  the first table that \<open>render\<close> returns holds the first element of \<open>timezones\<close>; and
  \<open>render\<close> does return whenever the currency rates can be formatted and the news are
  present.
\<close>

theorem render_first_timezone:
  assumes "timezones (location location_info) \<noteq> []"
  shows "(render float_str location_info = Inr tables \<longrightarrow>
            column (info_table tables) timezone_field
              = [Some (CStr (hd (timezones (location location_info))))]) \<and>
         (format_currency_rates location_info = Inr rates \<longrightarrow> news location_info = Some articles \<longrightarrow>
            (\<exists>t. render float_str location_info = Inr t))"
  using assms
  by (cases "timezones (location location_info)")
     (auto simp: render_cases info_row_cases info_table_def column_def timezone_field_def
        info_field_names_def PrettyTable_new_def split: sum.splits option.splits)

theorem render_first_timezone_witness:
  "timezones (location (example_info\<lparr>news := Some example_news\<rparr>)) \<noteq> [] \<and>
   (\<exists>tables. render float_str_example (example_info\<lparr>news := Some example_news\<rparr>) = Inr tables \<and>
      column (info_table tables) timezone_field = [Some (CStr (ascii ''UTC+02:00''))])"
proof -
  let ?li = "example_info\<lparr>news := Some example_news\<rparr>"
  have tz: "timezones (location ?li) \<noteq> []" "hd (timezones (location ?li)) = ascii ''UTC+02:00''"
    by (simp_all add: example_info_def)
  have n: "news ?li = Some example_news" by simp
  from render_first_timezone [OF tz(1), of float_str_example _ _ example_news]
       example_info_cell [of "Some example_news"] n
  obtain t where t: "render float_str_example ?li = Inr t" by blast
  from render_first_timezone [OF tz(1), of float_str_example t] t tz(2)
  have "column (info_table t) timezone_field = [Some (CStr (ascii ''UTC+02:00''))]" by simp
  with tz(1) t show ?thesis by blast
qed

text \<open>
  Claim C10: \<open>render\<close> iterates over \<open>news\<close> unconditionally, so for an aggregate with
  \<open>news = None\<close> it never returns the tables, and it raises the \<open>TypeError\<close> of the
  iteration whenever the row of the first table can be built; \<open>render\<close> returns only when
  the news are present.
\<close>

theorem render_news_None_fails:
  assumes "news location_info = None"
  shows "render float_str location_info \<noteq> Inr tables \<and>
         (info_row float_str location_info = Inr row \<longrightarrow>
            render float_str location_info = Inl TypeError)"
  using assms by (auto simp: render_cases split: sum.splits)

theorem render_news_None_fails_witness:
  "news (example_info\<lparr>news := None\<rparr>) = None \<and>
   render float_str_example (example_info\<lparr>news := None\<rparr>) = Inl TypeError"
proof -
  let ?li = "example_info\<lparr>news := None\<rparr>"
  have n: "news ?li = None" by simp
  from example_info_row [of float_str_example None]
  obtain row where row: "info_row float_str_example ?li = Inr row" by blast
  from render_news_None_fails [OF n, of float_str_example _ row] row n show ?thesis by blast
qed

section \<open>The weather collector\<close>





end
